theory Spec2Isabelle
  imports Main "HOL-Library.Log_Nat" "HOL-Library.Sublist"
begin

text \<open>
  A model of script.js, the personal finance tracker: the record list \<open>transactions\<close>,
  its copy in \<open>localStorage\<close>, the form handler \<open>addTransaction\<close>, \<open>deleteTransaction\<close>,
  the presenter \<open>addTransactionToDOM\<close> and the aggregator \<open>updateSummary\<close>, with the parts
  of the language they run on: Numbers, \<open>parseFloat\<close>, \<open>toFixed\<close>, \<open>trim\<close> and JSON. The
  theme switcher does not touch the ledger and is left out.
\<close>

section \<open>JavaScript numbers\<close>

text \<open>
  The amounts of script.js are JavaScript Numbers: IEEE 754 doubles. A finite double is
  represented by its exact rational value (\<open>+0\<close> and \<open>-0\<close> are both \<open>Fin 0\<close>: the program
  never tells them apart, since \<open>-0 > 0\<close>, \<open>-0 < 0\<close> are false and \<open>Math.abs(-0)\<close> is
  \<open>0\<close>). The result of every arithmetic operation is rounded to the nearest double, ties
  to even, as the language prescribes.
\<close>

datatype jsnum = Fin rat | PInf | NInf | NaN

definition pow2 :: "int \<Rightarrow> rat" where
  "pow2 e = (if 0 \<le> e then 2 ^ nat e else 1 / 2 ^ nat (- e))"

definition pow10 :: "int \<Rightarrow> rat" where
  "pow10 e = (if 0 \<le> e then 10 ^ nat e else 1 / 10 ^ nat (- e))"

text \<open>The binary exponent of a positive rational: \<open>2 ^ e \<le> q < 2 ^ (e + 1)\<close>.\<close>

definition ilog2 :: "rat \<Rightarrow> int" where
  "ilog2 q = (let (a, b) = quotient_of q; d = bitlen a - bitlen b
              in if pow2 d \<le> q then d else d - 1)"

definition round_half_even :: "rat \<Rightarrow> int" where
  "round_half_even x =
     (let f = \<lfloor>x\<rfloor>; d = x - of_int f
      in if d < 1 / 2 then f
         else if 1 / 2 < d then f + 1
         else if even f then f else f + 1)"

text \<open>
  Rounding a rational to a double: 53 significant bits, the least exponent \<open>-1074\<close>
  (subnormals), overflow to an infinity from \<open>2 ^ 1024\<close> on.
\<close>

definition round_double :: "rat \<Rightarrow> jsnum" where
  "round_double q =
     (if q = 0 then Fin 0
      else let p = max (ilog2 \<bar>q\<bar> - 52) (- 1074);
               r = of_int (round_half_even (q / pow2 p)) * pow2 p
           in if 2 ^ 1024 \<le> r then PInf
              else if r \<le> - (2 ^ 1024) then NInf
              else Fin r)"

text \<open>The operator \<open>+\<close> on two Numbers.\<close>

fun jsadd :: "jsnum \<Rightarrow> jsnum \<Rightarrow> jsnum" where
  "jsadd NaN _ = NaN"
| "jsadd _ NaN = NaN"
| "jsadd PInf NInf = NaN"
| "jsadd NInf PInf = NaN"
| "jsadd PInf _ = PInf"
| "jsadd _ PInf = PInf"
| "jsadd NInf _ = NInf"
| "jsadd _ NInf = NInf"
| "jsadd (Fin a) (Fin b) = round_double (a + b)"

text \<open>The operator \<open>*\<close> on two finite Numbers, all that \<open>generateID\<close> needs.\<close>

definition jsmul_fin :: "rat \<Rightarrow> rat \<Rightarrow> jsnum" where
  "jsmul_fin a b = round_double (a * b)"

text \<open>The relational operators \<open>>\<close> and \<open><\<close>: false whenever an operand is NaN.\<close>

fun js_lt :: "jsnum \<Rightarrow> jsnum \<Rightarrow> bool" where
  "js_lt NaN _ = False"
| "js_lt _ NaN = False"
| "js_lt PInf _ = False"
| "js_lt _ NInf = False"
| "js_lt NInf _ = True"
| "js_lt _ PInf = True"
| "js_lt (Fin a) (Fin b) = (a < b)"

definition js_gt :: "jsnum \<Rightarrow> jsnum \<Rightarrow> bool" where
  "js_gt a b = js_lt b a"

text \<open>Unary minus and \<open>Math.abs\<close>.\<close>

fun js_neg :: "jsnum \<Rightarrow> jsnum" where
  "js_neg (Fin a) = Fin (- a)"
| "js_neg PInf = NInf"
| "js_neg NInf = PInf"
| "js_neg NaN = NaN"

fun Math_abs :: "jsnum \<Rightarrow> jsnum" where
  "Math_abs (Fin a) = Fin \<bar>a\<bar>"
| "Math_abs PInf = PInf"
| "Math_abs NInf = PInf"
| "Math_abs NaN = NaN"

text \<open>
  What an \<open>amount\<close> property can hold: a Number, or \<open>null\<close> (a NaN or an infinity comes
  back from the persistent slot as \<open>null\<close>). \<open>ToNumber\<close> is the conversion the operators
  \<open>>\<close>, \<open><\<close>, \<open>+\<close> and \<open>Math.abs\<close> apply to their operands.
\<close>

datatype jsval = Number jsnum | Null

fun ToNumber :: "jsval \<Rightarrow> jsnum" where
  "ToNumber (Number n) = n"
| "ToNumber Null = Fin 0"

section \<open>JavaScript strings\<close>

text \<open>
  Strings are lists of characters with codes below 256. \<open>isWhiteSpace\<close> holds for the
  white space and line terminator characters of the language in that range (TAB, LF, VT,
  FF, CR, SP, NBSP): what \<open>String.prototype.trim\<close> strips and \<open>parseFloat\<close> skips.
\<close>

definition isWhiteSpace :: "char \<Rightarrow> bool" where
  "isWhiteSpace c \<longleftrightarrow>
     c \<in> set [CHR 0x09, CHR 0x0A, CHR 0x0B, CHR 0x0C, CHR 0x0D, CHR 0x20, CHR 0xA0]"

definition trimStart :: "string \<Rightarrow> string" where
  "trimStart s = dropWhile isWhiteSpace s"

definition trimEnd :: "string \<Rightarrow> string" where
  "trimEnd s = rev (dropWhile isWhiteSpace (rev s))"

definition trim :: "string \<Rightarrow> string" where
  "trim s = trimEnd (trimStart s)"

definition isDigit :: "char \<Rightarrow> bool" where
  "isDigit c \<longleftrightarrow> c \<in> set ''0123456789''"

definition digitValue :: "char \<Rightarrow> nat" where
  "digitValue c = of_char c - 48"

definition digitsValue :: "string \<Rightarrow> nat" where
  "digitsValue ds = foldl (\<lambda>v c. 10 * v + digitValue c) 0 ds"

definition digitChar :: "nat \<Rightarrow> char" where
  "digitChar d = char_of (48 + d)"

fun decimal :: "nat \<Rightarrow> string" where
  "decimal n = (if n < 10 then [digitChar n] else decimal (n div 10) @ [digitChar (n mod 10)])"

declare decimal.simps [simp del]

subsection \<open>parseFloat\<close>

text \<open>
  \<open>parseFloat\<close> skips leading white space and reads the longest prefix that is a
  \<open>StrDecimalLiteral\<close>: an optional sign, then \<open>Infinity\<close> or decimal digits with an
  optional fraction and an optional exponent. With no such prefix the result is NaN.
\<close>

text \<open>The exponent part, if a complete one is there: \<open>e\<close> or \<open>E\<close>, an optional sign, digits.\<close>

definition exponentPart :: "string \<Rightarrow> int" where
  "exponentPart r =
     (case r of
        [] \<Rightarrow> 0
      | c # r' \<Rightarrow>
          if c = CHR ''e'' \<or> c = CHR ''E'' then
            (case r' of
               [] \<Rightarrow> 0
             | d # r'' \<Rightarrow>
                 if d = CHR ''-'' then - int (digitsValue (takeWhile isDigit r''))
                 else if d = CHR ''+'' then int (digitsValue (takeWhile isDigit r''))
                 else int (digitsValue (takeWhile isDigit r')))
          else 0)"

definition strUnsignedDecimalLiteral :: "string \<Rightarrow> jsnum option" where
  "strUnsignedDecimalLiteral u =
     (if take 8 u = ''Infinity'' then Some PInf
      else
        let ip = takeWhile isDigit u;
            r1 = dropWhile isDigit u;
            (fp, r2) = (case r1 of
                          [] \<Rightarrow> ([], r1)
                        | c # r \<Rightarrow> if c = CHR ''.''
                                   then (takeWhile isDigit r, dropWhile isDigit r)
                                   else ([], r1))
        in if ip = [] \<and> fp = [] then None
           else Some (round_double
                  (of_nat (digitsValue (ip @ fp)) * pow10 (exponentPart r2 - int (length fp)))))"

definition parseFloat :: "string \<Rightarrow> jsnum" where
  "parseFloat s =
     (let t = trimStart s;
          (negative, u) = (case t of
                             [] \<Rightarrow> (False, t)
                           | c # r \<Rightarrow> if c = CHR ''-'' then (True, r)
                                      else if c = CHR ''+'' then (False, r)
                                      else (False, t))
      in case strUnsignedDecimalLiteral u of
           None \<Rightarrow> NaN
         | Some v \<Rightarrow> if negative then js_neg v else v)"

subsection \<open>Number.prototype.toFixed and formatCurrency\<close>

text \<open>
  \<open>Number::toString\<close> for a finite \<open>x \<ge> 10 ^ 21\<close>: the shortest digit string \<open>s\<close> (of
  \<open>k\<close> digits) and the exponent \<open>n\<close> with \<open>s * 10 ^ (n - k)\<close> rounding to \<open>x\<close>; of several
  such \<open>s\<close> the closest to \<open>x\<close>, and the even one of two equally close. For a double
  17 digits always suffice; the last resort below is for rationals that are no double.
\<close>

definition closer :: "rat \<Rightarrow> nat \<Rightarrow> nat \<times> nat \<Rightarrow> nat \<times> nat \<Rightarrow> nat \<times> nat" where
  "closer x k c1 c2 =
     (let d1 = \<bar>of_nat (fst c1) * 10 ^ (snd c1 - k) - x\<bar>;
          d2 = \<bar>of_nat (fst c2) * 10 ^ (snd c2 - k) - x\<bar>
      in if d1 < d2 \<or> (d1 = d2 \<and> even (fst c1)) then c1 else c2)"

definition digit_candidates :: "rat \<Rightarrow> nat \<Rightarrow> (nat \<times> nat) list" where
  "digit_candidates x k =
     (let d = length (decimal (nat \<lfloor>x\<rfloor>))
      in [(s, n). n \<leftarrow> [d, d + 1],
                  s \<leftarrow> [nat \<lfloor>x / 10 ^ (n - k)\<rfloor>, nat \<lfloor>x / 10 ^ (n - k)\<rfloor> + 1],
                  10 ^ (k - 1) \<le> s \<and> s < 10 ^ k
                  \<and> round_double (of_nat s * 10 ^ (n - k)) = Fin x])"

definition shortest_digits :: "rat \<Rightarrow> nat \<times> nat" where
  "shortest_digits x =
     (case filter (\<lambda>k. digit_candidates x k \<noteq> []) [1..<18] of
        k # _ \<Rightarrow> (case digit_candidates x k of c # cs \<Rightarrow> foldl (closer x k) c cs
                                              | [] \<Rightarrow> (0, 0))
      | [] \<Rightarrow> (let d = length (decimal (nat \<lfloor>x\<rfloor>))
               in (nat (round_half_even (x / 10 ^ (d - 17))), d)))"

definition Number_toString_large :: "rat \<Rightarrow> string" where
  "Number_toString_large x =
     (let (s, n) = shortest_digits x; ds = decimal s
      in (if length ds = 1 then ds else hd ds # CHR ''.'' # tl ds)
         @ ''e+'' @ decimal (n - 1))"

text \<open>
  \<open>number.toFixed(2)\<close>: NaN and the infinities print by name; a finite value prints its
  sign, then \<open>Number::toString\<close> from \<open>10 ^ 21\<close> on, else the integer \<open>n\<close> with \<open>n / 100\<close>
  closest to the value (the larger of two equally close), with a point before its last two
  digits.
\<close>

definition toFixed2 :: "jsnum \<Rightarrow> string" where
  "toFixed2 number =
     (case number of
        NaN \<Rightarrow> ''NaN''
      | PInf \<Rightarrow> ''Infinity''
      | NInf \<Rightarrow> ''-Infinity''
      | Fin v \<Rightarrow>
          let s = (if v < 0 then ''-'' else []);
              x = \<bar>v\<bar>;
              m = (if 10 ^ 21 \<le> x then Number_toString_large x
                   else let n = nat \<lfloor>x * 100 + 1 / 2\<rfloor>;
                            m0 = decimal n;
                            m1 = replicate (3 - length m0) (CHR ''0'') @ m0
                        in take (length m1 - 2) m1 @ ''.'' @ drop (length m1 - 2) m1)
          in s @ m)"

text \<open>
  \<open>.replace(/\d(?=(\d{3})+\.)/g, '$&,')\<close>: a comma after every digit that is followed
  by one or more groups of three digits and then a point.
\<close>

definition groups_then_point :: "string \<Rightarrow> bool" where
  "groups_then_point cs =
     (let ds = takeWhile isDigit cs
      in ds \<noteq> [] \<and> length ds mod 3 = 0
         \<and> (case dropWhile isDigit cs of [] \<Rightarrow> False | c # _ \<Rightarrow> c = CHR ''.''))"

fun replace_commas :: "string \<Rightarrow> string" where
  "replace_commas [] = []"
| "replace_commas (c # cs) =
     (if isDigit c \<and> groups_then_point cs then c # CHR '','' # replace_commas cs
      else c # replace_commas cs)"

definition formatCurrency :: "jsnum \<Rightarrow> string" where
  "formatCurrency number = ''$'' @ replace_commas (toFixed2 number)"

section \<open>The data model\<close>

text \<open>
  A transaction object, with the properties \<open>addTransaction\<close> gives it. The \<open>id\<close> is an
  integer: \<open>generateID\<close> returns \<open>Math.floor\<close> of a finite product.
\<close>

record transaction =
  id' :: int
  title :: string
  amount :: jsval
  type :: string
  date :: string

subsection \<open>The persistent slot and JSON\<close>

text \<open>
  A string kept in \<open>localStorage\<close> is represented by what \<open>JSON.parse\<close> makes of it: the
  value it denotes (numbers already as the doubles they are read as), or nothing when the
  string is not JSON text. \<open>JSON.stringify\<close> returns the text denoting the value it is
  given, where a Number that is NaN or infinite is written as \<open>null\<close>.
\<close>

datatype json =
  JNull
  | JBool bool
  | JNumber rat
  | JString string
  | JArray "json list"
  | JObject "(string \<times> json) list"

datatype stored = JsonText json | NotJson

datatype js_error = SyntaxError

fun amount_json :: "jsval \<Rightarrow> json" where
  "amount_json (Number (Fin q)) = JNumber q"
| "amount_json (Number _) = JNull"
| "amount_json Null = JNull"

definition transaction_json :: "transaction \<Rightarrow> json" where
  "transaction_json t =
     JObject [(''id'', JNumber (of_int (id' t))),
              (''title'', JString (title t)),
              (''amount'', amount_json (amount t)),
              (''type'', JString (type t)),
              (''date'', JString (date t))]"

definition JSON_stringify :: "transaction list \<Rightarrow> stored" where
  "JSON_stringify ts = JsonText (JArray (map transaction_json ts))"

text \<open>
  \<open>JSON.parse(localStorage.getItem(key))\<close>: \<open>getItem\<close> returns \<open>null\<close> for a missing key,
  which \<open>JSON.parse\<close> reads as the text \<open>null\<close>; a string that is not JSON text makes it
  throw a SyntaxError.
\<close>

fun JSON_parse :: "stored option \<Rightarrow> js_error + json" where
  "JSON_parse None = Inr JNull"
| "JSON_parse (Some NotJson) = Inl SyntaxError"
| "JSON_parse (Some (JsonText j)) = Inr j"

text \<open>The values that \<open>||\<close> takes for false.\<close>

fun falsy :: "json \<Rightarrow> bool" where
  "falsy JNull = True"
| "falsy (JBool b) = (\<not> b)"
| "falsy (JNumber q) = (q = 0)"
| "falsy (JString s) = (s = [])"
| "falsy (JArray _) = False"
| "falsy (JObject _) = False"

text \<open>
  The parsed value read as a list of transaction objects. Of a property written twice
  \<open>JSON.parse\<close> keeps the last.
\<close>

definition property :: "string \<Rightarrow> (string \<times> json) list \<Rightarrow> json option" where
  "property k ps = map_of (rev ps) k"

fun as_amount :: "json \<Rightarrow> jsval option" where
  "as_amount (JNumber q) = Some (Number (Fin q))"
| "as_amount JNull = Some Null"
| "as_amount _ = None"

definition as_transaction :: "json \<Rightarrow> transaction option" where
  "as_transaction j =
     (case j of
        JObject ps \<Rightarrow>
          (case (property ''id'' ps, property ''title'' ps, property ''amount'' ps,
                 property ''type'' ps, property ''date'' ps) of
             (Some (JNumber i), Some (JString ti), Some a, Some (JString ty), Some (JString da)) \<Rightarrow>
               (case as_amount a of
                  Some av \<Rightarrow>
                    if of_int \<lfloor>i\<rfloor> = i
                    then Some \<lparr>id' = \<lfloor>i\<rfloor>, title = ti, amount = av, type = ty, date = da\<rparr>
                    else None
                | None \<Rightarrow> None)
           | _ \<Rightarrow> None)
      | _ \<Rightarrow> None)"

definition as_transactions :: "json \<Rightarrow> transaction list option" where
  "as_transactions j = (case j of JArray js \<Rightarrow> those (map as_transaction js) | _ \<Rightarrow> None)"

text \<open>
  Line 15, \<open>let transactions = JSON.parse(localStorage.getItem('transactions')) || []\<close>.
  \<open>Untyped\<close> stands for a value that is no list of transaction objects: the script goes
  on with it, outside what the record type above describes.
\<close>

datatype load_result = Loaded "transaction list" | Thrown js_error | Untyped json

definition initial_transactions :: "(string \<rightharpoonup> stored) \<Rightarrow> load_result" where
  "initial_transactions storage =
     (case JSON_parse (storage ''transactions'') of
        Inl e \<Rightarrow> Thrown e
      | Inr v \<Rightarrow>
          if falsy v then Loaded []
          else (case as_transactions v of Some ts \<Rightarrow> Loaded ts | None \<Rightarrow> Untyped v))"

section \<open>The application state\<close>

text \<open>
  One list item of the rendered transaction list: its class and the interpolated parts of
  its \<open>innerHTML\<close> (title, date, the amount text, the argument of the delete button's
  \<open>deleteTransaction\<close> call).
\<close>

record list_item =
  classList :: "string list"
  title_span :: string
  date_span :: string
  amount_span :: string
  delete_arg :: int

text \<open>
  The global \<open>transactions\<close>, the persistent storage with the number of \<open>setItem\<close> calls
  made so far, the values of the three form fields, the rendered list, the texts of the
  three summary cards and the alerts shown to the user.
\<close>

record app =
  transactions :: "transaction list"
  localStorage :: "string \<rightharpoonup> stored"
  setItem_calls :: nat
  titleInput :: string
  amountInput :: string
  typeInput :: string
  transactionListEl :: "list_item list"
  balanceEl :: string
  incomeEl :: string
  expenseEl :: string
  alerts :: "string list"

definition alert :: "string \<Rightarrow> app \<Rightarrow> app" where
  "alert msg s = s\<lparr>alerts := alerts s @ [msg]\<rparr>"

definition updateLocalStorage :: "app \<Rightarrow> app" where
  "updateLocalStorage s =
     s\<lparr>localStorage := (localStorage s)(''transactions'' \<mapsto> JSON_stringify (transactions s)),
       setItem_calls := setItem_calls s + 1\<rparr>"

text \<open>
  \<open>Math.floor(Math.random() * 1000000000)\<close>, of the draw \<open>r\<close> that \<open>Math.random\<close>
  returns, a double with \<open>0 \<le> r < 1\<close>. The product of such a draw is finite; the other
  cases are there for totality only.
\<close>

definition generateID :: "rat \<Rightarrow> int" where
  "generateID r = (case jsmul_fin r 1000000000 of Fin q \<Rightarrow> \<lfloor>q\<rfloor> | _ \<Rightarrow> 0)"

subsection \<open>Presenter\<close>

definition addTransactionToDOM :: "transaction \<Rightarrow> app \<Rightarrow> app" where
  "addTransactionToDOM transaction s =
     (let type = (if js_gt (ToNumber (amount transaction)) (Fin 0) then ''income'' else ''expense'');
          sign = (if js_gt (ToNumber (amount transaction)) (Fin 0) then ''+'' else ''-'');
          item = \<lparr>classList = [type],
                  title_span = title transaction,
                  date_span = date transaction,
                  amount_span = sign @ formatCurrency (Math_abs (ToNumber (amount transaction))),
                  delete_arg = id' transaction\<rparr>
      in s\<lparr>transactionListEl := transactionListEl s @ [item]\<rparr>)"

subsection \<open>Aggregator\<close>

text \<open>The three local constants of \<open>updateSummary\<close>, as functions of the record list.\<close>

definition totalIncome :: "transaction list \<Rightarrow> jsnum" where
  "totalIncome ts =
     foldl (\<lambda>acc item. jsadd acc (ToNumber item)) (Fin 0)
       (filter (\<lambda>item. js_gt (ToNumber item) (Fin 0)) (map amount ts))"

definition totalExpense :: "transaction list \<Rightarrow> jsnum" where
  "totalExpense ts =
     foldl (\<lambda>acc item. jsadd acc (ToNumber item)) (Fin 0)
       (filter (\<lambda>item. js_lt (ToNumber item) (Fin 0)) (map amount ts))"

definition totalBalance :: "transaction list \<Rightarrow> jsnum" where
  "totalBalance ts = jsadd (totalIncome ts) (totalExpense ts)"

definition updateSummary :: "app \<Rightarrow> app" where
  "updateSummary s =
     s\<lparr>balanceEl := formatCurrency (totalBalance (transactions s)),
       incomeEl := formatCurrency (totalIncome (transactions s)),
       expenseEl := formatCurrency (Math_abs (totalExpense (transactions s)))\<rparr>"

definition init :: "app \<Rightarrow> app" where
  "init s =
     updateSummary
       (foldl (\<lambda>s' t. addTransactionToDOM t s') (s\<lparr>transactionListEl := []\<rparr>) (transactions s))"

subsection \<open>Form handler and deletion\<close>

text \<open>
  \<open>addTransaction\<close>, given what the environment supplies during the call: the draw of
  \<open>Math.random\<close> and the string \<open>new Date().toLocaleDateString()\<close>.
\<close>

definition addTransaction :: "rat \<Rightarrow> string \<Rightarrow> app \<Rightarrow> app" where
  "addTransaction r today s =
     (if trim (titleInput s) = [] \<or> trim (amountInput s) = []
      then alert ''Please add a title and amount.'' s
      else
        let type = typeInput s;
            amount0 = parseFloat (amountInput s);
            amount1 = (if type = ''expense'' \<and> js_gt amount0 (Fin 0) then js_neg amount0
                       else amount0);
            amount2 = (if type = ''income'' \<and> js_lt amount1 (Fin 0) then Math_abs amount1
                       else amount1);
            transaction = \<lparr>id' = generateID r, title = titleInput s, amount = Number amount2,
                           type = type, date = today\<rparr>;
            s1 = s\<lparr>transactions := transactions s @ [transaction]\<rparr>;
            s2 = init (updateLocalStorage s1)
        in s2\<lparr>titleInput := [], amountInput := []\<rparr>)"

definition deleteTransaction :: "int \<Rightarrow> app \<Rightarrow> app" where
  "deleteTransaction i s =
     init (updateLocalStorage
       (s\<lparr>transactions := filter (\<lambda>transaction. id' transaction \<noteq> i) (transactions s)\<rparr>))"

section \<open>Notions the properties are stated with\<close>

text \<open>The relational operators \<open><=\<close> and \<open>>=\<close> on Numbers.\<close>

fun js_le :: "jsnum \<Rightarrow> jsnum \<Rightarrow> bool" where
  "js_le NaN _ = False"
| "js_le _ NaN = False"
| "js_le NInf _ = True"
| "js_le _ PInf = True"
| "js_le PInf _ = False"
| "js_le _ NInf = False"
| "js_le (Fin a) (Fin b) = (a \<le> b)"

definition js_ge :: "jsnum \<Rightarrow> jsnum \<Rightarrow> bool" where
  "js_ge a b = js_le b a"

text \<open>
  The sum of the amounts that satisfy \<open>P\<close>, taken record by record in the order of the
  store, each addition a JavaScript addition.
\<close>

fun sum_amounts :: "(jsnum \<Rightarrow> bool) \<Rightarrow> jsnum \<Rightarrow> transaction list \<Rightarrow> jsnum" where
  "sum_amounts P acc [] = acc"
| "sum_amounts P acc (t # ts) =
     sum_amounts P (if P (ToNumber (amount t)) then jsadd acc (ToNumber (amount t)) else acc) ts"

text \<open>A store whose amounts are the whole numbers \<open>ns\<close>, in this order.\<close>

definition whole_amounts :: "transaction list \<Rightarrow> int list \<Rightarrow> bool" where
  "whole_amounts ts ns \<longleftrightarrow> map amount ts = map (\<lambda>n. Number (Fin (of_int n))) ns"

text \<open>An amount that is a Number but neither NaN nor infinite, or \<open>null\<close>.\<close>

fun survives_json :: "jsval \<Rightarrow> bool" where
  "survives_json (Number (Fin q)) = True"
| "survives_json (Number _) = False"
| "survives_json Null = True"

text \<open>
  A first visit: nothing stored, nothing rendered, nothing entered; and the user filling
  in the three form fields.
\<close>

definition first_visit :: app where
  "first_visit =
     \<lparr>transactions = [], localStorage = Map.empty, setItem_calls = 0,
      titleInput = [], amountInput = [], typeInput = ''income'',
      transactionListEl = [], balanceEl = ''$0.00'', incomeEl = ''$0.00'',
      expenseEl = ''$0.00'', alerts = []\<rparr>"

definition fill_form :: "string \<Rightarrow> string \<Rightarrow> string \<Rightarrow> app \<Rightarrow> app" where
  "fill_form ti am ty s = s\<lparr>titleInput := ti, amountInput := am, typeInput := ty\<rparr>"

text \<open>What becomes of an amount that is written to the slot and read back.\<close>

fun reloaded :: "jsval \<Rightarrow> jsval" where
  "reloaded (Number (Fin q)) = Number (Fin q)"
| "reloaded (Number _) = Null"
| "reloaded Null = Null"

text \<open>
  The three sums the aggregator is specified by: of the amounts above zero, of the amounts
  below zero, and of all amounts.
\<close>

definition sum_positive :: "transaction list \<Rightarrow> jsnum" where
  "sum_positive ts = sum_amounts (\<lambda>a. js_gt a (Fin 0)) (Fin 0) ts"

definition sum_negative :: "transaction list \<Rightarrow> jsnum" where
  "sum_negative ts = sum_amounts (\<lambda>a. js_lt a (Fin 0)) (Fin 0) ts"

definition sum_signed :: "transaction list \<Rightarrow> jsnum" where
  "sum_signed ts = sum_amounts (\<lambda>a. True) (Fin 0) ts"

text \<open>
  The user fills in the form and submits it; the environment supplies the draw and the
  date. Four sessions that start from a first visit: the scenario of the specification
  (Pay 1000 as income, then Rent 400 as expense), the same scenario with the same draw
  both times, a ledger with large amounts, and a submission whose amount is no number.
\<close>

definition submit :: "rat \<Rightarrow> string \<Rightarrow> string \<Rightarrow> string \<Rightarrow> string \<Rightarrow> app \<Rightarrow> app" where
  "submit r today ti am ty s = addTransaction r today (fill_form ti am ty s)"

definition pay_rent :: app where
  "pay_rent =
     submit (1 / 4) ''1/2/2026'' ''Rent'' ''400'' ''expense''
       (submit (1 / 2) ''1/1/2026'' ''Pay'' ''1000'' ''income'' first_visit)"

definition same_draw :: app where
  "same_draw =
     submit (1 / 2) ''1/2/2026'' ''Rent'' ''400'' ''expense''
       (submit (1 / 2) ''1/1/2026'' ''Pay'' ''1000'' ''income'' first_visit)"

definition large_ledger :: app where
  "large_ledger =
     submit (3 / 4) ''1/3/2026'' ''Tip'' ''1'' ''income''
       (submit (1 / 4) ''1/2/2026'' ''Loan'' ''1e16'' ''expense''
         (submit (1 / 2) ''1/1/2026'' ''Sale'' ''1e16'' ''income'' first_visit))"

definition not_a_number :: app where
  "not_a_number = submit (1 / 2) ''1/1/2026'' ''Pay'' ''abc'' ''income'' first_visit"

section \<open>Rounding\<close>

text \<open>Rounding keeps the sign, and is exact on the integers up to \<open>2 ^ 53\<close>.\<close>

lemma pow2_pos: "0 < pow2 p"
  by (simp add: pow2_def)

lemma round_half_even_nonneg: "0 \<le> x \<Longrightarrow> 0 \<le> round_half_even x"
  by (auto simp: round_half_even_def Let_def)

lemma round_half_even_nonpos: "x \<le> 0 \<Longrightarrow> round_half_even x \<le> 0"
proof -
  assume x: "x \<le> 0"
  have f: "\<lfloor>x\<rfloor> \<le> 0" using floor_mono [OF x] by simp
  show ?thesis
  proof (cases "x = of_int \<lfloor>x\<rfloor>")
    case True
    then have "x - of_int \<lfloor>x\<rfloor> = 0" by simp
    then show ?thesis using f by (simp add: round_half_even_def Let_def)
  next
    case False
    then have "of_int \<lfloor>x\<rfloor> < x" using of_int_floor_le [of x] by linarith
    then have "of_int \<lfloor>x\<rfloor> < (0::rat)" using x by linarith
    then have "\<lfloor>x\<rfloor> < 0" by simp
    then show ?thesis by (auto simp: round_half_even_def Let_def)
  qed
qed

lemma round_half_even_of_int: "round_half_even (of_int k) = k"
  by (simp add: round_half_even_def)

lemma round_double_nonneg: "0 \<le> q \<Longrightarrow> js_le (Fin 0) (round_double q)"
proof -
  assume q: "0 \<le> q"
  define p where "p = max (ilog2 \<bar>q\<bar> - 52) (- 1074)"
  define r where "r = of_int (round_half_even (q / pow2 p)) * pow2 p"
  have "0 \<le> q / pow2 p" using q pow2_pos [of p] by simp
  then have "0 \<le> round_half_even (q / pow2 p)" by (rule round_half_even_nonneg)
  then have r: "0 \<le> r" using pow2_pos [of p] by (simp add: r_def)
  have "round_double q = (if q = 0 then Fin 0 else if 2 ^ 1024 \<le> r then PInf
          else if r \<le> - (2 ^ 1024) then NInf else Fin r)"
    by (simp only: round_double_def Let_def p_def r_def)
  moreover have "\<not> r \<le> - (2 ^ 1024)"
  proof
    assume "r \<le> - (2 ^ 1024)"
    moreover have "(0::rat) < 2 ^ 1024" by simp
    ultimately show False using r by linarith
  qed
  ultimately show ?thesis using r by simp
qed

lemma round_double_nonpos: "q \<le> 0 \<Longrightarrow> js_le (round_double q) (Fin 0)"
proof -
  assume q: "q \<le> 0"
  define p where "p = max (ilog2 \<bar>q\<bar> - 52) (- 1074)"
  define r where "r = of_int (round_half_even (q / pow2 p)) * pow2 p"
  have "q / pow2 p \<le> 0" using q pow2_pos [of p] by (simp add: divide_le_0_iff)
  then have "round_half_even (q / pow2 p) \<le> 0" by (rule round_half_even_nonpos)
  then have r: "r \<le> 0" using pow2_pos [of p] by (simp add: r_def mult_le_0_iff)
  have "round_double q = (if q = 0 then Fin 0 else if 2 ^ 1024 \<le> r then PInf
          else if r \<le> - (2 ^ 1024) then NInf else Fin r)"
    by (simp only: round_double_def Let_def p_def r_def)
  moreover have "\<not> 2 ^ 1024 \<le> r"
  proof
    assume "2 ^ 1024 \<le> r"
    moreover have "(0::rat) < 2 ^ 1024" by simp
    ultimately show False using r by linarith
  qed
  ultimately show ?thesis using r by simp
qed

lemma bitlen_one: "bitlen 1 = 1"
  by (simp add: bitlen_alt_def)

lemma ilog2_of_int:
  assumes "0 < m"
  shows "ilog2 (of_int m) = bitlen m - 1"
proof -
  have q: "quotient_of (of_int m) = (m, 1)" by simp
  have ge: "0 \<le> bitlen m - 1"
    using assms bitlen_eq_zero_iff [of m] bitlen_nonneg [of m] by linarith
  have "(2::int) ^ nat (bitlen m - 1) \<le> m" using bitlen_bounds [OF assms] by simp
  then have "(of_int ((2::int) ^ nat (bitlen m - 1)) :: rat) \<le> of_int m"
    by (simp only: of_int_le_iff)
  then have "pow2 (bitlen m - 1) \<le> of_int m" using ge by (simp add: pow2_def)
  then show ?thesis by (simp add: ilog2_def q bitlen_one)
qed

lemma round_double_of_int:
  assumes "\<bar>n\<bar> \<le> 2 ^ 53"
  shows "round_double (of_int n) = Fin (of_int n)"
proof (cases "n = 0")
  case True
  then show ?thesis by (simp add: round_double_def)
next
  case False
  define m where "m = \<bar>n\<bar>"
  have m: "0 < m" "m \<le> 2 ^ 53" using False assms by (simp_all add: m_def)
  define e where "e = bitlen m - 1"
  have e0: "0 \<le> e"
    using m(1) bitlen_eq_zero_iff [of m] bitlen_nonneg [of m] by (simp add: e_def)
  have lo: "(2::int) ^ nat e \<le> m" using bitlen_bounds [OF m(1)] by (simp add: e_def)
  have e53: "e \<le> 53"
  proof (rule ccontr)
    assume "\<not> e \<le> 53"
    then have "54 \<le> nat e" by simp
    then have "(2::int) ^ 54 \<le> 2 ^ nat e" by (rule power_increasing) simp
    then show False using lo m(2) by simp
  qed
  define p where "p = max (e - 52) (- 1074)"
  have p: "p = e - 52" using e0 by (simp add: p_def)
  have "\<exists>k. (of_int n :: rat) = of_int k * pow2 p"
  proof (cases "e \<le> 52")
    case True
    then have "pow2 p = 1 / 2 ^ nat (52 - e)"
      by (cases "e = 52") (simp_all add: pow2_def p)
    then have "(of_int n :: rat) = of_int (n * 2 ^ nat (52 - e)) * pow2 p" by simp
    then show ?thesis by blast
  next
    case False
    then have e: "e = 53" using e53 by simp
    then have "(2::int) ^ 53 \<le> m" using lo by simp
    then have "m = 2 ^ 53" using m(2) by simp
    then have "n = 2 ^ 53 \<or> n = - (2 ^ 53)" by (auto simp: m_def abs_if split: if_splits)
    moreover have "pow2 p = 2" by (simp add: pow2_def p e)
    ultimately have "(of_int n :: rat) = of_int (n div 2) * pow2 p" by auto
    then show ?thesis by blast
  qed
  then obtain k where k: "(of_int n :: rat) = of_int k * pow2 p" by blast
  have pp: "pow2 p \<noteq> 0" by (simp add: pow2_def)
  have il: "ilog2 \<bar>of_int n\<bar> = e"
    using ilog2_of_int [OF m(1)] by (simp add: m_def e_def)
  have "of_int n / pow2 p = (of_int k :: rat)" using k pp by simp
  then have r: "of_int (round_half_even (of_int n / pow2 p)) * pow2 p = (of_int n :: rat)"
    using k by (simp add: round_half_even_of_int)
  have b: "\<bar>(of_int n :: rat)\<bar> \<le> 2 ^ 53"
    using assms by (metis of_int_abs of_int_le_iff of_int_numeral of_int_power)
  have "(2::rat) ^ 53 < 2 ^ 1024" by simp
  then have "\<not> 2 ^ 1024 \<le> (of_int n :: rat)" "\<not> (of_int n :: rat) \<le> - (2 ^ 1024)"
    using b by linarith+
  then show ?thesis
    using False by (simp add: round_double_def Let_def il p_def [symmetric] r)
qed

lemma round_double_numeral:
  "numeral k \<le> (2::int) ^ 53 \<Longrightarrow> round_double (numeral k) = Fin (numeral k)"
  using round_double_of_int [of "numeral k"] by simp

lemma round_double_neg_numeral:
  "numeral k \<le> (2::int) ^ 53 \<Longrightarrow> round_double (- numeral k) = Fin (- numeral k)"
  using round_double_of_int [of "- numeral k"] by simp

lemma round_double_one: "round_double 1 = Fin 1"
  using round_double_of_int [of 1] by simp

lemma floor_rat_numeral_div:
  "\<lfloor>(numeral a :: rat) / numeral b\<rfloor> = numeral a div numeral b"
  using floor_divide_of_int_eq [of "numeral a" "numeral b", where ?'a = rat] by simp

lemmas round_double_eval = round_double_def ilog2_def pow2_def round_half_even_def bitlen_def
  compute_floorlog Let_def floor_rat_numeral_div

lemma round_double_1e16:
  "round_double 10000000000000000 = Fin 10000000000000000"
  "round_double (- 10000000000000000) = Fin (- 10000000000000000)"
  "round_double 10000000000000001 = Fin 10000000000000000"
  by (simp_all add: round_double_eval)

section \<open>The aggregator's folds\<close>

lemma jsadd_ge0: "js_le (Fin 0) a \<Longrightarrow> js_lt (Fin 0) b \<Longrightarrow> js_le (Fin 0) (jsadd a b)"
  by (cases a; cases b) (simp_all add: round_double_nonneg)

lemma jsadd_le0: "js_le a (Fin 0) \<Longrightarrow> js_lt b (Fin 0) \<Longrightarrow> js_le (jsadd a b) (Fin 0)"
  by (cases a; cases b) (simp_all add: round_double_nonpos)

lemma foldl_income_ge0:
  "js_le (Fin 0) acc \<Longrightarrow>
   js_le (Fin 0) (foldl (\<lambda>acc item. jsadd acc (ToNumber item)) acc
     (filter (\<lambda>item. js_gt (ToNumber item) (Fin 0)) xs))"
  by (induction xs arbitrary: acc) (simp_all add: jsadd_ge0 js_gt_def)

lemma foldl_expense_le0:
  "js_le acc (Fin 0) \<Longrightarrow>
   js_le (foldl (\<lambda>acc item. jsadd acc (ToNumber item)) acc
     (filter (\<lambda>item. js_lt (ToNumber item) (Fin 0)) xs)) (Fin 0)"
  by (induction xs arbitrary: acc) (simp_all add: jsadd_le0)

lemma foldl_filter_sum_amounts:
  "foldl (\<lambda>acc item. jsadd acc (ToNumber item)) acc
     (filter (\<lambda>item. P (ToNumber item)) (map amount ts)) = sum_amounts P acc ts"
  by (induction ts arbitrary: acc) simp_all

lemma foldl_income_whole:
  "\<bar>a\<bar> + (\<Sum>n\<leftarrow>ns. \<bar>n\<bar>) \<le> 2 ^ 53 \<Longrightarrow>
   foldl (\<lambda>acc item. jsadd acc (ToNumber item)) (Fin (of_int a))
     (filter (\<lambda>item. js_gt (ToNumber item) (Fin 0)) (map (\<lambda>n. Number (Fin (of_int n))) ns))
   = Fin (of_int (a + (\<Sum>n\<leftarrow>ns. max n 0)))"
proof (induction ns arbitrary: a)
  case Nil
  then show ?case by simp
next
  case (Cons n ns)
  show ?case
  proof (cases "0 < n")
    case True
    have b: "\<bar>a + n\<bar> \<le> 2 ^ 53" using Cons.prems sum_list_abs [of ns] by simp
    have "\<bar>a + n\<bar> + (\<Sum>n\<leftarrow>ns. \<bar>n\<bar>) \<le> 2 ^ 53" using Cons.prems by simp
    from Cons.IH [OF this] show ?thesis
      using True round_double_of_int [OF b] by (simp add: js_gt_def add.assoc)
  next
    case False
    have "\<bar>a\<bar> + (\<Sum>n\<leftarrow>ns. \<bar>n\<bar>) \<le> 2 ^ 53" using Cons.prems by simp
    from Cons.IH [OF this] show ?thesis using False by (simp add: js_gt_def)
  qed
qed

lemma foldl_expense_whole:
  "\<bar>a\<bar> + (\<Sum>n\<leftarrow>ns. \<bar>n\<bar>) \<le> 2 ^ 53 \<Longrightarrow>
   foldl (\<lambda>acc item. jsadd acc (ToNumber item)) (Fin (of_int a))
     (filter (\<lambda>item. js_lt (ToNumber item) (Fin 0)) (map (\<lambda>n. Number (Fin (of_int n))) ns))
   = Fin (of_int (a + (\<Sum>n\<leftarrow>ns. min n 0)))"
proof (induction ns arbitrary: a)
  case Nil
  then show ?case by simp
next
  case (Cons n ns)
  show ?case
  proof (cases "n < 0")
    case True
    have b: "\<bar>a + n\<bar> \<le> 2 ^ 53" using Cons.prems sum_list_abs [of ns] by simp
    have "\<bar>a + n\<bar> + (\<Sum>n\<leftarrow>ns. \<bar>n\<bar>) \<le> 2 ^ 53" using Cons.prems by simp
    from Cons.IH [OF this] show ?thesis
      using True round_double_of_int [OF b] by (simp add: add.assoc)
  next
    case False
    have "\<bar>a\<bar> + (\<Sum>n\<leftarrow>ns. \<bar>n\<bar>) \<le> 2 ^ 53" using Cons.prems by simp
    from Cons.IH [OF this] show ?thesis using False by simp
  qed
qed

lemma foldl_all_whole:
  "\<bar>a\<bar> + (\<Sum>n\<leftarrow>ns. \<bar>n\<bar>) \<le> 2 ^ 53 \<Longrightarrow>
   foldl (\<lambda>acc item. jsadd acc (ToNumber item)) (Fin (of_int a))
     (filter (\<lambda>item. True) (map (\<lambda>n. Number (Fin (of_int n))) ns))
   = Fin (of_int (a + sum_list ns))"
proof (induction ns arbitrary: a)
  case Nil
  then show ?case by simp
next
  case (Cons n ns)
  have b: "\<bar>a + n\<bar> \<le> 2 ^ 53" using Cons.prems sum_list_abs [of ns] by simp
  have "\<bar>a + n\<bar> + (\<Sum>n\<leftarrow>ns. \<bar>n\<bar>) \<le> 2 ^ 53" using Cons.prems by simp
  from Cons.IH [OF this] show ?case
    using round_double_of_int [OF b] by (simp add: add.assoc)
qed

lemma sum_list_max_min: "(\<Sum>n\<leftarrow>ns. max n 0) + (\<Sum>n\<leftarrow>ns. min n 0) = sum_list (ns :: int list)"
  by (induction ns) auto

lemma sum_list_max_min_abs:
  "\<bar>(\<Sum>n\<leftarrow>ns. max n 0) + (\<Sum>n\<leftarrow>ns. min n (0::int))\<bar> \<le> (\<Sum>n\<leftarrow>ns. \<bar>n\<bar>)"
  unfolding sum_list_max_min by (rule sum_list_abs)

lemma totals_whole:
  assumes w: "whole_amounts ts ns" and b: "(\<Sum>n\<leftarrow>ns. \<bar>n\<bar>) \<le> 2 ^ 53"
  shows "totalIncome ts = Fin (of_int (\<Sum>n\<leftarrow>ns. max n 0))"
    and "totalExpense ts = Fin (of_int (\<Sum>n\<leftarrow>ns. min n 0))"
    and "totalBalance ts = Fin (of_int (sum_list ns))"
    and "sum_signed ts = Fin (of_int (sum_list ns))"
proof -
  have m: "map amount ts = map (\<lambda>n. Number (Fin (of_int n))) ns"
    using w by (simp add: whole_amounts_def)
  have b0: "\<bar>0::int\<bar> + (\<Sum>n\<leftarrow>ns. \<bar>n\<bar>) \<le> 2 ^ 53" using b by simp
  show i: "totalIncome ts = Fin (of_int (\<Sum>n\<leftarrow>ns. max n 0))"
    using foldl_income_whole [OF b0] by (simp add: totalIncome_def m)
  show e: "totalExpense ts = Fin (of_int (\<Sum>n\<leftarrow>ns. min n 0))"
    using foldl_expense_whole [OF b0] by (simp add: totalExpense_def m)
  have "\<bar>(\<Sum>n\<leftarrow>ns. max n 0) + (\<Sum>n\<leftarrow>ns. min n 0)\<bar> \<le> 2 ^ 53"
    using sum_list_max_min_abs [of ns] b by linarith
  then have "round_double (of_int ((\<Sum>n\<leftarrow>ns. max n 0) + (\<Sum>n\<leftarrow>ns. min n 0)))
             = Fin (of_int ((\<Sum>n\<leftarrow>ns. max n 0) + (\<Sum>n\<leftarrow>ns. min n 0)))"
    by (rule round_double_of_int)
  then show "totalBalance ts = Fin (of_int (sum_list ns))"
    by (simp add: totalBalance_def i e sum_list_max_min del: of_int_add
          add: of_int_add [symmetric])
  have "sum_amounts (\<lambda>a. True) (Fin 0) ts =
        foldl (\<lambda>acc item. jsadd acc (ToNumber item)) (Fin 0)
          (filter (\<lambda>item. True) (map amount ts))"
    by (rule foldl_filter_sum_amounts [symmetric])
  then show "sum_signed ts = Fin (of_int (sum_list ns))"
    using foldl_all_whole [OF b0] by (simp add: m sum_signed_def)
qed

lemma totals_skip_zero:
  assumes "amount t = Number (Fin 0)"
  shows "totalIncome (xs @ t # ys) = totalIncome (xs @ ys)"
    and "totalExpense (xs @ t # ys) = totalExpense (xs @ ys)"
    and "totalBalance (xs @ t # ys) = totalBalance (xs @ ys)"
  using assms by (simp_all add: totalBalance_def totalIncome_def totalExpense_def js_gt_def)

section \<open>What the handlers change\<close>

lemma foldl_render_frame:
  "transactions (foldl (\<lambda>s' t. addTransactionToDOM t s') s0 xs) = transactions s0"
  "localStorage (foldl (\<lambda>s' t. addTransactionToDOM t s') s0 xs) = localStorage s0"
  "setItem_calls (foldl (\<lambda>s' t. addTransactionToDOM t s') s0 xs) = setItem_calls s0"
  "alerts (foldl (\<lambda>s' t. addTransactionToDOM t s') s0 xs) = alerts s0"
  by (induction xs arbitrary: s0) (simp_all add: addTransactionToDOM_def Let_def)

lemma init_frame:
  "transactions (init s) = transactions s"
  "localStorage (init s) = localStorage s"
  "setItem_calls (init s) = setItem_calls s"
  "alerts (init s) = alerts s"
  by (simp_all add: init_def updateSummary_def foldl_render_frame)

lemma addTransaction_rejected:
  "trim (titleInput s) = [] \<or> trim (amountInput s) = [] \<Longrightarrow>
   addTransaction r today s = s\<lparr>alerts := alerts s @ [''Please add a title and amount.'']\<rparr>"
  by (simp add: addTransaction_def alert_def)

lemma addTransaction_accepted:
  assumes "trim (titleInput s) \<noteq> []" and "trim (amountInput s) \<noteq> []"
  shows "transactions (addTransaction r today s) =
           transactions s @
           [\<lparr>id' = generateID r, title = titleInput s,
             amount = Number
               (let amount0 = parseFloat (amountInput s);
                    amount1 = (if typeInput s = ''expense'' \<and> js_gt amount0 (Fin 0)
                               then js_neg amount0 else amount0)
                in if typeInput s = ''income'' \<and> js_lt amount1 (Fin 0)
                   then Math_abs amount1 else amount1),
             type = typeInput s, date = today\<rparr>]"
    and "localStorage (addTransaction r today s) =
           (localStorage s)(''transactions'' \<mapsto>
              JSON_stringify (transactions (addTransaction r today s)))"
    and "setItem_calls (addTransaction r today s) = setItem_calls s + 1"
    and "alerts (addTransaction r today s) = alerts s"
  using assms
  by (simp_all add: addTransaction_def Let_def init_frame updateLocalStorage_def)

lemma deleteTransaction_transactions:
  "transactions (deleteTransaction i s) = filter (\<lambda>t. id' t \<noteq> i) (transactions s)"
  by (simp add: deleteTransaction_def init_frame updateLocalStorage_def)

lemma stored_amount_sign:
  fixes ty :: string
  defines "stored amount0 \<equiv>
     (let amount1 = (if ty = ''expense'' \<and> js_gt amount0 (Fin 0) then js_neg amount0
                     else amount0)
      in if ty = ''income'' \<and> js_lt amount1 (Fin 0) then Math_abs amount1 else amount1)"
  shows "amount0 \<noteq> NaN \<longrightarrow>
           (ty = ''income'' \<longrightarrow> js_ge (stored amount0) (Fin 0))
           \<and> (ty = ''expense'' \<longrightarrow> js_le (stored amount0) (Fin 0))"
  unfolding stored_def by (cases amount0) (auto simp: js_gt_def js_ge_def Let_def)

lemma formatCurrency_zero: "formatCurrency (Fin 0) = ''$0.00''"
  by code_simp

section \<open>Writing to the slot and reading back\<close>

lemma as_amount_json: "as_amount (amount_json v) = Some (reloaded v)"
  by (cases v rule: reloaded.cases) simp_all

lemma as_transaction_json:
  "as_transaction (transaction_json t) = Some (t\<lparr>amount := reloaded (amount t)\<rparr>)"
  by (cases t) (simp add: as_transaction_def transaction_json_def property_def as_amount_json)

lemma those_as_transaction:
  "those (map (as_transaction \<circ> transaction_json) ts)
     = Some (map (\<lambda>t. t\<lparr>amount := reloaded (amount t)\<rparr>) ts)"
  by (induction ts) (simp_all add: as_transaction_json)

lemma reloaded_survives: "survives_json v \<Longrightarrow> reloaded v = v"
  by (cases v rule: reloaded.cases) simp_all

section \<open>The example sessions, evaluated\<close>

lemmas parseFloat_eval = parseFloat_def trimStart_def isWhiteSpace_def
  strUnsignedDecimalLiteral_def isDigit_def exponentPart_def digitsValue_def digitValue_def
  pow10_def

lemma parseFloat_examples:
  "parseFloat ''1000'' = Fin 1000"
  "parseFloat ''400'' = Fin 400"
  "parseFloat ''0'' = Fin 0"
  "parseFloat ''1'' = Fin 1"
  "parseFloat ''1e16'' = Fin 10000000000000000"
  "parseFloat ''abc'' = NaN"
  by (simp_all add: parseFloat_eval round_double_numeral round_double_one round_double_1e16
        round_double_def [of 0])

lemmas trim_eval = trim_def trimEnd_def trimStart_def isWhiteSpace_def

lemma generateID_examples:
  "generateID (1 / 2) = 500000000"
  "generateID (1 / 4) = 250000000"
  "generateID (3 / 4) = 750000000"
  by (simp_all add: generateID_def jsmul_fin_def round_double_numeral)

lemma fill_form_fields:
  "titleInput (fill_form ti am ty s) = ti"
  "amountInput (fill_form ti am ty s) = am"
  "typeInput (fill_form ti am ty s) = ty"
  "transactions (fill_form ti am ty s) = transactions s"
  "alerts (fill_form ti am ty s) = alerts s"
  "setItem_calls (fill_form ti am ty s) = setItem_calls s"
  "localStorage (fill_form ti am ty s) = localStorage s"
  by (simp_all add: fill_form_def)

lemma submit_transactions:
  assumes "trim ti \<noteq> []" and "trim am \<noteq> []"
  shows "transactions (submit r today ti am ty s) =
           transactions s @
           [\<lparr>id' = generateID r, title = ti,
             amount = Number
               (let amount0 = parseFloat am;
                    amount1 = (if ty = ''expense'' \<and> js_gt amount0 (Fin 0)
                               then js_neg amount0 else amount0)
                in if ty = ''income'' \<and> js_lt amount1 (Fin 0)
                   then Math_abs amount1 else amount1),
             type = ty, date = today\<rparr>]"
  using addTransaction_accepted(1) [of "fill_form ti am ty s" r today] assms
  by (simp add: submit_def fill_form_def)

lemma pay_rent_transactions:
  "transactions pay_rent =
     [\<lparr>id' = 500000000, title = ''Pay'', amount = Number (Fin 1000), type = ''income'',
       date = ''1/1/2026''\<rparr>,
      \<lparr>id' = 250000000, title = ''Rent'', amount = Number (Fin (- 400)), type = ''expense'',
       date = ''1/2/2026''\<rparr>]"
  by (simp add: pay_rent_def submit_transactions trim_eval parseFloat_examples
        generateID_examples js_gt_def first_visit_def)

lemma same_draw_transactions:
  "transactions same_draw =
     [\<lparr>id' = 500000000, title = ''Pay'', amount = Number (Fin 1000), type = ''income'',
       date = ''1/1/2026''\<rparr>,
      \<lparr>id' = 500000000, title = ''Rent'', amount = Number (Fin (- 400)), type = ''expense'',
       date = ''1/2/2026''\<rparr>]"
  by (simp add: same_draw_def submit_transactions trim_eval parseFloat_examples
        generateID_examples js_gt_def first_visit_def)

lemma large_ledger_transactions:
  "transactions large_ledger =
     [\<lparr>id' = 500000000, title = ''Sale'', amount = Number (Fin 10000000000000000),
       type = ''income'', date = ''1/1/2026''\<rparr>,
      \<lparr>id' = 250000000, title = ''Loan'', amount = Number (Fin (- 10000000000000000)),
       type = ''expense'', date = ''1/2/2026''\<rparr>,
      \<lparr>id' = 750000000, title = ''Tip'', amount = Number (Fin 1),
       type = ''income'', date = ''1/3/2026''\<rparr>]"
  by (simp add: large_ledger_def submit_transactions trim_eval parseFloat_examples
        generateID_examples js_gt_def first_visit_def)

lemma not_a_number_transactions:
  "transactions not_a_number =
     [\<lparr>id' = 500000000, title = ''Pay'', amount = Number NaN, type = ''income'',
       date = ''1/1/2026''\<rparr>]"
  by (simp add: not_a_number_def submit_transactions trim_eval parseFloat_examples
        generateID_examples js_gt_def first_visit_def)

section \<open>The properties of the specification\<close>

subsection \<open>C1: the aggregator\<close>

text \<open>
  C1. For every record list, the total income is the sum of the amounts above zero, added
  up in the order of the store, and is \<open>>= 0\<close>; the total expense is the sum of the
  amounts below zero and is \<open><= 0\<close>; the balance is the one JavaScript sum of the two.
  When the amounts are whole numbers whose absolute values add up to at most \<open>2 ^ 53\<close>, no
  addition rounds, and the balance is the sum of all signed amounts.
\<close>

theorem C1_totals:
  "totalIncome ts = sum_positive ts
   \<and> js_ge (totalIncome ts) (Fin 0)
   \<and> totalExpense ts = sum_negative ts
   \<and> js_le (totalExpense ts) (Fin 0)
   \<and> totalBalance ts = jsadd (totalIncome ts) (totalExpense ts)
   \<and> (whole_amounts ts ns \<and> (\<Sum>n\<leftarrow>ns. \<bar>n\<bar>) \<le> 2 ^ 53 \<longrightarrow>
        totalBalance ts = sum_signed ts
        \<and> totalBalance ts = Fin (of_int (sum_list ns)))"
proof -
  have "totalIncome ts = sum_positive ts"
    unfolding totalIncome_def sum_positive_def by (rule foldl_filter_sum_amounts)
  moreover have "js_ge (totalIncome ts) (Fin 0)"
    unfolding totalIncome_def js_ge_def by (rule foldl_income_ge0) simp
  moreover have "totalExpense ts = sum_negative ts"
    unfolding totalExpense_def sum_negative_def by (rule foldl_filter_sum_amounts)
  moreover have "js_le (totalExpense ts) (Fin 0)"
    unfolding totalExpense_def by (rule foldl_expense_le0) simp
  moreover have "totalBalance ts = jsadd (totalIncome ts) (totalExpense ts)"
    by (simp add: totalBalance_def)
  moreover have "whole_amounts ts ns \<and> (\<Sum>n\<leftarrow>ns. \<bar>n\<bar>) \<le> 2 ^ 53 \<longrightarrow>
        totalBalance ts = sum_signed ts
        \<and> totalBalance ts = Fin (of_int (sum_list ns))"
    using totals_whole(3,4) [of ts ns] by simp
  ultimately show ?thesis by blast
qed

text \<open>
  The scenario of the specification: income 1000, expense -400, balance 600, which is
  also the sum of the two signed amounts.
\<close>

theorem C1_totals_witness:
  "whole_amounts (transactions pay_rent) [1000, - 400]
   \<and> (\<Sum>n\<leftarrow>[1000, - 400 :: int]. \<bar>n\<bar>) \<le> 2 ^ 53
   \<and> totalIncome (transactions pay_rent) = Fin 1000
   \<and> totalExpense (transactions pay_rent) = Fin (- 400)
   \<and> totalBalance (transactions pay_rent) = Fin 600
   \<and> sum_signed (transactions pay_rent) = Fin 600"
proof -
  let ?X = "transactions pay_rent"
  have w: "whole_amounts ?X [1000, - 400]"
    by (simp add: pay_rent_transactions whole_amounts_def)
  have b: "(\<Sum>n\<leftarrow>[1000, - 400 :: int]. \<bar>n\<bar>) \<le> 2 ^ 53" by simp
  from C1_totals [of ?X "[1000, - 400]"] w b
  have "totalIncome ?X = sum_positive ?X" and "totalExpense ?X = sum_negative ?X"
    and "totalBalance ?X = sum_signed ?X"
    and "totalBalance ?X = Fin (of_int (sum_list [1000, - 400]))"
    by blast+
  moreover have "sum_positive ?X = Fin 1000"
    by (simp add: pay_rent_transactions sum_positive_def js_gt_def round_double_numeral)
  moreover have "sum_negative ?X = Fin (- 400)"
    by (simp add: pay_rent_transactions sum_negative_def js_gt_def round_double_neg_numeral)
  ultimately show ?thesis using w b by simp
qed

text \<open>
  Without the bound the balance is not the sum of all signed amounts. In the ledger
  \<open>1e16, -1e16, 1\<close> the income \<open>1e16 + 1\<close> rounds to \<open>1e16\<close>, so the balance is 0,
  while the amounts add up to 1, in the order of the store as well as exactly.
\<close>

theorem C1_counterexample:
  "totalBalance (transactions large_ledger) = Fin 0
   \<and> sum_signed (transactions large_ledger) = Fin 1
   \<and> totalBalance (transactions large_ledger) \<noteq> sum_signed (transactions large_ledger)"
  by (simp add: large_ledger_transactions totalBalance_def totalIncome_def totalExpense_def
        sum_signed_def js_gt_def round_double_1e16 round_double_one round_double_def [of 0])

subsection \<open>C2: adding a transaction\<close>

text \<open>
  C2. For every submission with a non-empty trimmed title and amount, \<open>addTransaction\<close>
  makes the store one record longer, and the amount of the new record is the Number that
  \<open>parseFloat\<close> read, with the sign set by the selected type: when it is not NaN it is
  \<open>>= 0\<close> for type income and \<open><= 0\<close> for type expense, whatever sign was entered.
  An amount that \<open>parseFloat\<close> reads as NaN is stored as NaN.
\<close>

theorem C2_add:
  assumes "trim (titleInput s) \<noteq> []" and "trim (amountInput s) \<noteq> []"
  shows "length (transactions (addTransaction r today s)) = length (transactions s) + 1
    \<and> (\<exists>a. amount (last (transactions (addTransaction r today s))) = Number a
          \<and> (parseFloat (amountInput s) = NaN \<longrightarrow> a = NaN)
          \<and> (parseFloat (amountInput s) \<noteq> NaN \<longrightarrow>
               (typeInput s = ''income'' \<longrightarrow> js_ge a (Fin 0))
               \<and> (typeInput s = ''expense'' \<longrightarrow> js_le a (Fin 0))))"
proof -
  note t = addTransaction_accepted(1) [OF assms, of r today]
  have len: "length (transactions (addTransaction r today s)) = length (transactions s) + 1"
    by (simp add: t)
  define a where "a = (let amount0 = parseFloat (amountInput s);
                    amount1 = (if typeInput s = ''expense'' \<and> js_gt amount0 (Fin 0)
                               then js_neg amount0 else amount0)
                in if typeInput s = ''income'' \<and> js_lt amount1 (Fin 0)
                   then Math_abs amount1 else amount1)"
  have am: "amount (last (transactions (addTransaction r today s))) = Number a"
    by (simp add: t a_def)
  have nan: "parseFloat (amountInput s) = NaN \<longrightarrow> a = NaN"
    by (simp add: a_def js_gt_def)
  have sign: "parseFloat (amountInput s) \<noteq> NaN \<longrightarrow>
               (typeInput s = ''income'' \<longrightarrow> js_ge a (Fin 0))
               \<and> (typeInput s = ''expense'' \<longrightarrow> js_le a (Fin 0))"
    unfolding a_def Let_def
    using stored_amount_sign [of "parseFloat (amountInput s)" "typeInput s"]
    unfolding Let_def by blast
  show ?thesis using len am nan sign by blast
qed

text \<open>Rent, entered as 400 with type expense, is stored with an amount \<open><= 0\<close>.\<close>

theorem C2_add_witness:
  "trim (titleInput (fill_form ''Rent'' ''400'' ''expense'' first_visit)) \<noteq> []
   \<and> trim (amountInput (fill_form ''Rent'' ''400'' ''expense'' first_visit)) \<noteq> []
   \<and> length (transactions
        (addTransaction (1 / 4) ''1/2/2026'' (fill_form ''Rent'' ''400'' ''expense'' first_visit)))
       = length (transactions (fill_form ''Rent'' ''400'' ''expense'' first_visit)) + 1
   \<and> js_le (ToNumber (amount (last (transactions
        (addTransaction (1 / 4) ''1/2/2026'' (fill_form ''Rent'' ''400'' ''expense'' first_visit))))))
        (Fin 0)"
proof -
  let ?s = "fill_form ''Rent'' ''400'' ''expense'' first_visit"
  have h1: "trim (titleInput ?s) \<noteq> []" by (simp add: fill_form_fields trim_eval)
  have h2: "trim (amountInput ?s) \<noteq> []" by (simp add: fill_form_fields trim_eval)
  have h3: "parseFloat (amountInput ?s) \<noteq> NaN"
    by (simp add: fill_form_fields parseFloat_examples)
  have h4: "typeInput ?s = ''expense''" by (simp add: fill_form_fields)
  from C2_add [OF h1 h2, of "1 / 4" "''1/2/2026''"] h3 h4 h1 h2 show ?thesis by auto
qed

text \<open>
  The amount \<open>abc\<close> is not empty, so the submission is accepted; with type income the
  stored amount is NaN, which is not \<open>>= 0\<close>.
\<close>

theorem C2_counterexample:
  "trim (titleInput (fill_form ''Pay'' ''abc'' ''income'' first_visit)) \<noteq> []
   \<and> trim (amountInput (fill_form ''Pay'' ''abc'' ''income'' first_visit)) \<noteq> []
   \<and> amount (last (transactions
        (addTransaction (1 / 2) ''1/1/2026'' (fill_form ''Pay'' ''abc'' ''income'' first_visit))))
       = Number NaN
   \<and> \<not> js_ge NaN (Fin 0)"
  using not_a_number_transactions
  by (simp add: not_a_number_def submit_def fill_form_fields trim_eval js_ge_def)

subsection \<open>C3: deleting by id\<close>

text \<open>
  C3. After \<open>deleteTransaction(id)\<close> the store holds no record with that id, and when no
  record had that id the store is as it was.
\<close>

theorem C3_delete:
  "(\<forall>t \<in> set (transactions (deleteTransaction i s)). id' t \<noteq> i)
   \<and> ((\<forall>t \<in> set (transactions s). id' t \<noteq> i) \<longrightarrow>
        transactions (deleteTransaction i s) = transactions s)"
  by (simp add: deleteTransaction_transactions)

text \<open>In the scenario: deleting Pay by its id, and deleting an id that no record has.\<close>

theorem C3_delete_witness:
  "500000000 \<in> set (map id' (transactions pay_rent))
   \<and> 500000000 \<notin> set (map id' (transactions (deleteTransaction 500000000 pay_rent)))
   \<and> 7 \<notin> set (map id' (transactions pay_rent))
   \<and> transactions (deleteTransaction 7 pay_rent) = transactions pay_rent"
  using C3_delete [of 500000000 pay_rent] C3_delete [of 7 pay_rent]
  by (auto simp add: pay_rent_transactions)

subsection \<open>C4: validation\<close>

text \<open>
  C4. When the trimmed title or the trimmed amount is empty, \<open>addTransaction\<close> only shows
  the alert: the store and the persistent storage are as before, and \<open>setItem\<close> is not
  called. Every other submission is accepted without an alert, whatever the amount, the
  type and the id are: the store grows by one record and is written to the storage once.
\<close>

theorem C4_validation:
  "(trim (titleInput s) = [] \<or> trim (amountInput s) = [] \<longrightarrow>
      addTransaction r today s = alert ''Please add a title and amount.'' s
      \<and> alerts (addTransaction r today s) = alerts s @ [''Please add a title and amount.'']
      \<and> transactions (addTransaction r today s) = transactions s
      \<and> localStorage (addTransaction r today s) = localStorage s
      \<and> setItem_calls (addTransaction r today s) = setItem_calls s)
   \<and> (trim (titleInput s) \<noteq> [] \<and> trim (amountInput s) \<noteq> [] \<longrightarrow>
      alerts (addTransaction r today s) = alerts s
      \<and> length (transactions (addTransaction r today s)) = length (transactions s) + 1
      \<and> setItem_calls (addTransaction r today s) = setItem_calls s + 1)"
proof -
  have "trim (titleInput s) = [] \<or> trim (amountInput s) = [] \<longrightarrow>
      addTransaction r today s = alert ''Please add a title and amount.'' s
      \<and> alerts (addTransaction r today s) = alerts s @ [''Please add a title and amount.'']
      \<and> transactions (addTransaction r today s) = transactions s
      \<and> localStorage (addTransaction r today s) = localStorage s
      \<and> setItem_calls (addTransaction r today s) = setItem_calls s"
    using addTransaction_rejected [of s r today] by (simp add: alert_def)
  moreover have "trim (titleInput s) \<noteq> [] \<and> trim (amountInput s) \<noteq> [] \<longrightarrow>
      alerts (addTransaction r today s) = alerts s
      \<and> length (transactions (addTransaction r today s)) = length (transactions s) + 1
      \<and> setItem_calls (addTransaction r today s) = setItem_calls s + 1"
    using addTransaction_accepted(1,3,4) [of s r today] by simp
  ultimately show ?thesis by blast
qed

text \<open>
  A title of two spaces is rejected; the amount \<open>abc\<close> is accepted without an alert.
\<close>

theorem C4_validation_witness:
  "trim (titleInput (fill_form ''  '' ''5'' ''income'' first_visit)) = []
   \<and> addTransaction (1 / 2) ''1/1/2026'' (fill_form ''  '' ''5'' ''income'' first_visit)
       = alert ''Please add a title and amount.'' (fill_form ''  '' ''5'' ''income'' first_visit)
   \<and> transactions (addTransaction (1 / 2) ''1/1/2026'' (fill_form ''  '' ''5'' ''income'' first_visit)) = []
   \<and> setItem_calls (addTransaction (1 / 2) ''1/1/2026'' (fill_form ''  '' ''5'' ''income'' first_visit)) = 0
   \<and> trim (titleInput (fill_form ''Pay'' ''abc'' ''income'' first_visit)) \<noteq> []
   \<and> trim (amountInput (fill_form ''Pay'' ''abc'' ''income'' first_visit)) \<noteq> []
   \<and> alerts (addTransaction (1 / 2) ''1/1/2026'' (fill_form ''Pay'' ''abc'' ''income'' first_visit)) = []
   \<and> length (transactions (addTransaction (1 / 2) ''1/1/2026'' (fill_form ''Pay'' ''abc'' ''income'' first_visit))) = 1
   \<and> setItem_calls (addTransaction (1 / 2) ''1/1/2026'' (fill_form ''Pay'' ''abc'' ''income'' first_visit)) = 1"
proof -
  let ?bad = "fill_form ''  '' ''5'' ''income'' first_visit"
  let ?ok = "fill_form ''Pay'' ''abc'' ''income'' first_visit"
  have b: "trim (titleInput ?bad) = []" by (simp add: fill_form_fields trim_eval)
  have o: "trim (titleInput ?ok) \<noteq> []" "trim (amountInput ?ok) \<noteq> []"
    by (simp_all add: fill_form_fields trim_eval)
  have f: "transactions ?bad = []" "setItem_calls ?bad = 0" "alerts ?ok = []"
    "transactions ?ok = []" "setItem_calls ?ok = 0"
    by (simp_all add: fill_form_fields first_visit_def)
  from C4_validation [of ?bad "1 / 2" "''1/1/2026''"] C4_validation [of ?ok "1 / 2" "''1/1/2026''"]
    b o f show ?thesis by (simp add: alert_def)
qed

subsection \<open>C5: the round trip through the persistent slot\<close>

text \<open>
  C5. Writing the store to the slot and loading it again gives the same records in the
  same order, except that an amount that is NaN or infinite comes back as \<open>null\<close>. So
  a store with no such amount comes back equal.
\<close>

theorem C5_round_trip:
  "initial_transactions (localStorage (updateLocalStorage s))
     = Loaded (map (\<lambda>t. t\<lparr>amount := reloaded (amount t)\<rparr>) (transactions s))
   \<and> ((\<forall>t \<in> set (transactions s). survives_json (amount t)) \<longrightarrow>
         initial_transactions (localStorage (updateLocalStorage s)) = Loaded (transactions s))"
proof -
  have l: "initial_transactions (localStorage (updateLocalStorage s))
     = Loaded (map (\<lambda>t. t\<lparr>amount := reloaded (amount t)\<rparr>) (transactions s))"
    by (simp add: initial_transactions_def updateLocalStorage_def JSON_stringify_def
          as_transactions_def those_as_transaction)
  have "(\<forall>t \<in> set (transactions s). survives_json (amount t)) \<longrightarrow>
          map (\<lambda>t. t\<lparr>amount := reloaded (amount t)\<rparr>) (transactions s) = transactions s"
    by (simp add: reloaded_survives map_idI)
  with l show ?thesis by simp
qed

text \<open>The scenario's store comes back equal.\<close>

theorem C5_round_trip_witness:
  "survives_json (amount (transactions pay_rent ! 0))
   \<and> survives_json (amount (transactions pay_rent ! 1))
   \<and> length (transactions pay_rent) = 2
   \<and> initial_transactions (localStorage (updateLocalStorage pay_rent))
       = Loaded (transactions pay_rent)"
  using C5_round_trip [of pay_rent] by (simp add: pay_rent_transactions)

text \<open>
  The store with the amount NaN does not: it is written as \<open>null\<close> and comes back as
  \<open>null\<close>.
\<close>

theorem C5_counterexample:
  "transactions not_a_number =
     [\<lparr>id' = 500000000, title = ''Pay'', amount = Number NaN, type = ''income'',
       date = ''1/1/2026''\<rparr>]
   \<and> initial_transactions (localStorage (updateLocalStorage not_a_number)) =
     Loaded [\<lparr>id' = 500000000, title = ''Pay'', amount = Null, type = ''income'',
              date = ''1/1/2026''\<rparr>]
   \<and> initial_transactions (localStorage (updateLocalStorage not_a_number))
       \<noteq> Loaded (transactions not_a_number)"
  by (simp add: not_a_number_transactions initial_transactions_def updateLocalStorage_def
        JSON_stringify_def as_transactions_def as_transaction_def transaction_json_def
        property_def)

subsection \<open>C6: the initial load\<close>

text \<open>
  C6. A slot that is missing or corrupt is meant to load as the empty record list, as the
  comment on line 14 says and as \<open>|| []\<close> attempts. A missing slot does, and so does a
  slot that holds the text \<open>null\<close>. A slot that holds a string that is not JSON text
  does not: \<open>JSON.parse\<close> throws a SyntaxError before \<open>|| []\<close> is reached, and nothing
  catches it.
\<close>

theorem C6_corrupt_slot:
  "initial_transactions [''transactions'' \<mapsto> NotJson] = Thrown SyntaxError
   \<and> initial_transactions [''transactions'' \<mapsto> NotJson] \<noteq> Loaded []
   \<and> initial_transactions Map.empty = Loaded []
   \<and> initial_transactions [''transactions'' \<mapsto> JsonText JNull] = Loaded []"
  by (simp add: initial_transactions_def)

subsection \<open>C7: the presenter reads the amount, not the type tag\<close>

text \<open>
  C7. Changing only the type tag of a record does not change what \<open>addTransactionToDOM\<close>
  renders, and two records with the same amount get the same class and the same amount
  text.
\<close>

theorem C7_render:
  "addTransactionToDOM (t\<lparr>type := ty\<rparr>) s = addTransactionToDOM t s
   \<and> (amount t1 = amount t2 \<longrightarrow>
        map classList (transactionListEl (addTransactionToDOM t1 s))
          = map classList (transactionListEl (addTransactionToDOM t2 s))
        \<and> map amount_span (transactionListEl (addTransactionToDOM t1 s))
          = map amount_span (transactionListEl (addTransactionToDOM t2 s)))"
  by (simp add: addTransactionToDOM_def Let_def)

text \<open>Pay 1000 tagged as an expense renders as an income, like any record of 1000.\<close>

theorem C7_render_witness:
  "addTransactionToDOM
     (\<lparr>id' = 1, title = ''Pay'', amount = Number (Fin 1000), type = ''income'',
       date = ''1/1/2026''\<rparr>\<lparr>type := ''expense''\<rparr>) first_visit
   = addTransactionToDOM
     \<lparr>id' = 1, title = ''Pay'', amount = Number (Fin 1000), type = ''income'',
       date = ''1/1/2026''\<rparr> first_visit
   \<and> map classList (transactionListEl (addTransactionToDOM
        \<lparr>id' = 1, title = ''Pay'', amount = Number (Fin 1000), type = ''expense'',
          date = ''1/1/2026''\<rparr> first_visit))
     = map classList (transactionListEl (addTransactionToDOM
        \<lparr>id' = 2, title = ''Sale'', amount = Number (Fin 1000), type = ''income'',
          date = ''1/2/2026''\<rparr> first_visit))"
proof -
  let ?t = "\<lparr>id' = 1, title = ''Pay'', amount = Number (Fin 1000), type = ''income'',
       date = ''1/1/2026''\<rparr>"
  let ?t1 = "\<lparr>id' = 1, title = ''Pay'', amount = Number (Fin 1000), type = ''expense'',
       date = ''1/1/2026''\<rparr>"
  let ?t2 = "\<lparr>id' = 2, title = ''Sale'', amount = Number (Fin 1000), type = ''income'',
       date = ''1/2/2026''\<rparr>"
  have a: "amount ?t1 = amount ?t2" by simp
  from C7_render [where t = ?t and ty = "''expense''" and s = first_visit
      and ?t1.0 = ?t1 and ?t2.0 = ?t2] a
  show ?thesis by blast
qed

subsection \<open>C8: ids\<close>

text \<open>
  C8. The ids in a store are meant to be unique. They are not: \<open>generateID\<close> is a
  function of the draw alone, and two submissions with the same draw get the same id. In
  the session below both records have the id 500000000.
\<close>

theorem C8_duplicate_id:
  "map id' (transactions same_draw) = [500000000, 500000000]
   \<and> \<not> distinct (map id' (transactions same_draw))"
  by (simp add: same_draw_transactions)

subsection \<open>C9: what adding and deleting leave alone\<close>

text \<open>
  C9. \<open>addTransaction\<close> leaves the store as it was or appends one record to it, the
  records before it unchanged; \<open>deleteTransaction(id)\<close> leaves the records with another
  id unchanged and in their order, and adds none.
\<close>

theorem C9_frame:
  "(trim (titleInput s) = [] \<or> trim (amountInput s) = [] \<longrightarrow>
      transactions (addTransaction r today s) = transactions s)
   \<and> (trim (titleInput s) \<noteq> [] \<and> trim (amountInput s) \<noteq> [] \<longrightarrow>
      (\<exists>t. transactions (addTransaction r today s) = transactions s @ [t]))
   \<and> filter (\<lambda>t. id' t \<noteq> i) (transactions (deleteTransaction i s))
       = filter (\<lambda>t. id' t \<noteq> i) (transactions s)
   \<and> subseq (transactions (deleteTransaction i s)) (transactions s)"
proof -
  have "trim (titleInput s) = [] \<or> trim (amountInput s) = [] \<longrightarrow>
      transactions (addTransaction r today s) = transactions s"
    using addTransaction_rejected [of s r today] by auto
  moreover have "trim (titleInput s) \<noteq> [] \<and> trim (amountInput s) \<noteq> [] \<longrightarrow>
      (\<exists>t. transactions (addTransaction r today s) = transactions s @ [t])"
    using addTransaction_accepted(1) [of s r today] by blast
  moreover have "filter (\<lambda>t. id' t \<noteq> i) (transactions (deleteTransaction i s))
       = filter (\<lambda>t. id' t \<noteq> i) (transactions s)"
    by (simp add: deleteTransaction_transactions)
  moreover have "subseq (transactions (deleteTransaction i s)) (transactions s)"
    by (simp add: deleteTransaction_transactions)
  ultimately show ?thesis by blast
qed

text \<open>Adding a third record to the scenario, and deleting Pay from it.\<close>

theorem C9_frame_witness:
  "trim (titleInput (fill_form ''Tip'' ''1'' ''income'' pay_rent)) \<noteq> []
   \<and> trim (amountInput (fill_form ''Tip'' ''1'' ''income'' pay_rent)) \<noteq> []
   \<and> take 2 (transactions (addTransaction (3 / 4) ''1/3/2026''
        (fill_form ''Tip'' ''1'' ''income'' pay_rent))) = transactions pay_rent
   \<and> length (transactions (addTransaction (3 / 4) ''1/3/2026''
        (fill_form ''Tip'' ''1'' ''income'' pay_rent))) = 3
   \<and> filter (\<lambda>t. id' t \<noteq> 500000000) (transactions (deleteTransaction 500000000 pay_rent))
       = filter (\<lambda>t. id' t \<noteq> 500000000) (transactions pay_rent)
   \<and> subseq (transactions (deleteTransaction 500000000 pay_rent)) (transactions pay_rent)"
proof -
  let ?s = "fill_form ''Tip'' ''1'' ''income'' pay_rent"
  have h: "trim (titleInput ?s) \<noteq> []" "trim (amountInput ?s) \<noteq> []"
    by (simp_all add: fill_form_fields trim_eval)
  have l: "length (transactions pay_rent) = 2" "transactions ?s = transactions pay_rent"
    by (simp_all add: pay_rent_transactions fill_form_fields)
  from C9_frame [of ?s "3 / 4" "''1/3/2026''" 500000000] h
  obtain t where "transactions (addTransaction (3 / 4) ''1/3/2026'' ?s) = transactions ?s @ [t]"
    by blast
  moreover note C9_frame [of pay_rent "3 / 4" "''1/3/2026''" 500000000]
  ultimately show ?thesis using h l by simp
qed

subsection \<open>C10: an amount of zero\<close>

text \<open>
  C10. A record whose amount is 0 is rendered with the class expense and the text
  \<open>-$0.00\<close>, and it changes none of the three totals, wherever it stands in the store.
  An entered amount that \<open>parseFloat\<close> reads as 0 passes validation and is stored as 0
  for every selected type.
\<close>

theorem C10_zero:
  "(amount t = Number (Fin 0) \<longrightarrow>
      (\<exists>item. transactionListEl (addTransactionToDOM t s) = transactionListEl s @ [item]
          \<and> classList item = [''expense''] \<and> amount_span item = ''-$0.00'')
      \<and> totalIncome (xs @ t # ys) = totalIncome (xs @ ys)
      \<and> totalExpense (xs @ t # ys) = totalExpense (xs @ ys)
      \<and> totalBalance (xs @ t # ys) = totalBalance (xs @ ys))
   \<and> (trim (titleInput s) \<noteq> [] \<and> trim (amountInput s) \<noteq> []
        \<and> parseFloat (amountInput s) = Fin 0 \<longrightarrow>
      amount (last (transactions (addTransaction r today s))) = Number (Fin 0))"
proof -
  have "amount t = Number (Fin 0) \<longrightarrow>
      (\<exists>item. transactionListEl (addTransactionToDOM t s) = transactionListEl s @ [item]
          \<and> classList item = [''expense''] \<and> amount_span item = ''-$0.00'')"
    by (simp add: addTransactionToDOM_def Let_def js_gt_def formatCurrency_zero)
  moreover have "amount t = Number (Fin 0) \<longrightarrow>
      totalIncome (xs @ t # ys) = totalIncome (xs @ ys)
      \<and> totalExpense (xs @ t # ys) = totalExpense (xs @ ys)
      \<and> totalBalance (xs @ t # ys) = totalBalance (xs @ ys)"
    using totals_skip_zero [of t xs ys] by simp
  moreover have "trim (titleInput s) \<noteq> [] \<and> trim (amountInput s) \<noteq> []
        \<and> parseFloat (amountInput s) = Fin 0 \<longrightarrow>
      amount (last (transactions (addTransaction r today s))) = Number (Fin 0)"
    using addTransaction_accepted(1) [of s r today] by (simp add: js_gt_def)
  ultimately show ?thesis by blast
qed

text \<open>A gift of 0, entered with type income.\<close>

theorem C10_zero_witness:
  "amount \<lparr>id' = 1, title = ''Gift'', amount = Number (Fin 0), type = ''income'',
       date = ''1/1/2026''\<rparr> = Number (Fin 0)
   \<and> map classList (transactionListEl (addTransactionToDOM
        \<lparr>id' = 1, title = ''Gift'', amount = Number (Fin 0), type = ''income'',
          date = ''1/1/2026''\<rparr> (fill_form ''Gift'' ''0'' ''income'' first_visit))) = [[''expense'']]
   \<and> map amount_span (transactionListEl (addTransactionToDOM
        \<lparr>id' = 1, title = ''Gift'', amount = Number (Fin 0), type = ''income'',
          date = ''1/1/2026''\<rparr> (fill_form ''Gift'' ''0'' ''income'' first_visit))) = [''-$0.00'']
   \<and> totalBalance (transactions pay_rent @
        [\<lparr>id' = 1, title = ''Gift'', amount = Number (Fin 0), type = ''income'',
          date = ''1/1/2026''\<rparr>]) = totalBalance (transactions pay_rent)
   \<and> trim (titleInput (fill_form ''Gift'' ''0'' ''income'' first_visit)) \<noteq> []
   \<and> trim (amountInput (fill_form ''Gift'' ''0'' ''income'' first_visit)) \<noteq> []
   \<and> parseFloat (amountInput (fill_form ''Gift'' ''0'' ''income'' first_visit)) = Fin 0
   \<and> amount (last (transactions (addTransaction (1 / 2) ''1/1/2026''
        (fill_form ''Gift'' ''0'' ''income'' first_visit)))) = Number (Fin 0)"
proof -
  let ?t = "\<lparr>id' = 1, title = ''Gift'', amount = Number (Fin 0), type = ''income'',
          date = ''1/1/2026''\<rparr>"
  let ?s = "fill_form ''Gift'' ''0'' ''income'' first_visit"
  have h: "trim (titleInput ?s) \<noteq> []" "trim (amountInput ?s) \<noteq> []"
    "parseFloat (amountInput ?s) = Fin 0"
    by (simp_all add: fill_form_fields trim_eval parseFloat_examples)
  have e: "transactionListEl ?s = []" by (simp add: first_visit_def fill_form_def)
  from C10_zero [where t = ?t and s = ?s and xs = "transactions pay_rent" and ys = "[]"
      and r = "1 / 2" and today = "''1/1/2026''"] h e
  show ?thesis by auto
qed

end
